theory Spec2Isabelle
  imports Main
begin

section \<open>Python strings\<close>

text \<open>
  A Python \<open>str\<close> is a sequence of Unicode code points; the game's words and messages are
  Korean, so a string is modelled as the list of its code points, not as a byte list.
  Indexing \<open>s[0]\<close> and \<open>s[-1]\<close> on a non-empty string are \<open>hd\<close> and \<open>last\<close>, equality is
  equality of the lists, and an f-string is the concatenation of its pieces.
\<close>

type_synonym pystr = "nat list"

text \<open>An ASCII literal as a Python string.\<close>

definition py :: "string \<Rightarrow> pystr" where
  "py cs = map of_char cs"

text \<open>
  \<open>str.isspace\<close> on one code point: the characters that \<open>str.strip()\<close> with no argument
  removes (tab to carriage return, the four information separators, space, NEL, no-break
  space, and the Unicode space separators and line and paragraph separators).
\<close>

definition isspace :: "nat \<Rightarrow> bool" where
  "isspace c \<longleftrightarrow>
     (9 \<le> c \<and> c \<le> 13) \<or> (28 \<le> c \<and> c \<le> 32) \<or> c = 133 \<or> c = 160 \<or> c = 5760 \<or>
     (8192 \<le> c \<and> c \<le> 8202) \<or> c = 8232 \<or> c = 8233 \<or> c = 8239 \<or> c = 8287 \<or>
     c = 12288"

text \<open>\<open>user_input.strip()\<close>: leading and trailing whitespace removed.\<close>

definition strip :: "pystr \<Rightarrow> pystr" where
  "strip s = rev (dropWhile isspace (rev (dropWhile isspace s)))"


section \<open>Session state\<close>

text \<open>
  The keys that \<open>initialize_game\<close> of \<^verbatim>\<open>app.py\<close> stores in \<open>st.session_state\<close>. The
  two-player page \<^verbatim>\<open>main.py\<close> stores the same keys and two more.
\<close>

record session =
  word_history :: "pystr list"
  current_turn :: int
  last_word :: pystr
  game_over :: bool
  message :: pystr

datatype player = A | B

record session2 = session +
  current_player :: player
  input_key_counter :: int

text \<open>The player's letter as it is interpolated into a message.\<close>

fun player_str :: "player \<Rightarrow> pystr" where
  "player_str A = [65]"
| "player_str B = [66]"

text \<open>
  What a run of the submit handler ended with. The handler returns nothing; the tag names
  the path it took: the warning shown for an empty word, the error shown when the game
  ends on a used word or on a broken chain, and the success shown for an added word.
\<close>

datatype rejection = EmptyInput

datatype over_reason = DuplicateWord | ChainBroken

datatype outcome = Rejected rejection | GameOver over_reason pystr | Accepted pystr

fun is_accepted :: "outcome \<Rightarrow> bool" where
  "is_accepted (Accepted w) = True"
| "is_accepted (Rejected r) = False"
| "is_accepted (GameOver r w) = False"


section \<open>Messages\<close>

text \<open>
  The message literals of both pages, as code points: the start message of each page, the
  prompt to enter a word, and the pieces of the three f-strings (game over on a used word,
  game over on a word that does not start with the required character, word added).
\<close>

definition app_msg_start :: pystr where
  "app_msg_start =
     [44172, 51076, 51012, 32, 49884, 51089, 54633, 45768, 45796, 33, 32, 52395, 32, 45800,
      50612, 47484, 32, 51077, 47141, 54644, 51452, 49464, 50836, 46]"

definition main_msg_start :: pystr where
  "main_msg_start =
     [44172, 51076, 51012, 32, 49884, 51089, 54633, 45768, 45796, 33, 32, 54540, 47112, 51060,
      50612, 32, 65, 44032, 32, 52395, 32, 45800, 50612, 47484, 32, 51077, 47141, 54644, 51452,
      49464, 50836, 46]"

definition msg_empty :: pystr where
  "msg_empty = [45800, 50612, 47484, 32, 51077, 47141, 54644, 51452, 49464, 50836, 33]"

definition msg_game_over :: pystr where
  "msg_game_over = [44172, 51076, 32, 50724, 48260, 33, 32]"

definition msg_player :: pystr where
  "msg_player = [54540, 47112, 51060, 50612, 32]"

definition msg_already_used :: pystr where
  "msg_already_used =
     [39, 45716, 32, 51060, 48120, 32, 49324, 50857, 46108, 32, 45800, 50612, 51077, 45768,
      45796, 46]"

definition msg_not_start :: pystr where
  "msg_not_start =
     [39, 47196, 32, 49884, 51089, 54616, 51648, 32, 50506, 49845, 45768, 45796, 46]"

definition app_msg_duplicate :: "pystr \<Rightarrow> pystr" where
  "app_msg_duplicate new_word = msg_game_over @ [39] @ new_word @ msg_already_used"

definition app_msg_chain :: "pystr \<Rightarrow> nat \<Rightarrow> pystr" where
  "app_msg_chain new_word c =
     msg_game_over @ [39] @ new_word @ [39, 45716, 32, 39] @ [c] @ msg_not_start"

definition app_msg_added :: "pystr \<Rightarrow> pystr" where
  "app_msg_added new_word =
     [39] @ new_word @
     [39, 44032, 32, 49457, 44277, 51201, 51004, 47196, 32, 52628, 44032, 46104, 50632, 49845,
      45768, 45796, 46]"

definition main_msg_duplicate :: "player \<Rightarrow> pystr \<Rightarrow> pystr" where
  "main_msg_duplicate p new_word =
     msg_game_over @ msg_player @ player_str p @ [45784, 44, 32, 39] @ new_word @
     msg_already_used"

definition main_msg_chain :: "player \<Rightarrow> pystr \<Rightarrow> nat \<Rightarrow> pystr" where
  "main_msg_chain p new_word c =
     msg_game_over @ msg_player @ player_str p @ [45784, 44, 32, 39] @ new_word @
     [39, 45716, 32, 39] @ [c] @ msg_not_start"

definition main_msg_added :: "player \<Rightarrow> pystr \<Rightarrow> pystr" where
  "main_msg_added p new_word =
     msg_player @ player_str p @ [45784, 51060, 32, 39] @ new_word @
     [39, 47484, 32, 49457, 44277, 51201, 51004, 47196, 32, 52628, 44032, 54664, 49845, 45768,
      45796, 46]"


section \<open>The solo page, \<^verbatim>\<open>app.py\<close>\<close>

text \<open>\<open>initialize_game\<close>: every key is overwritten, whatever the session held.\<close>

definition app_initialize_game :: session where
  "app_initialize_game =
     \<lparr>word_history = [], current_turn = 1, last_word = [], game_over = False,
      message = app_msg_start\<rparr>"

text \<open>
  The body of \<open>if st.button(...)\<close> for the submit button in \<open>main\<close>: the checks in the
  order of the source, each ending the handler. \<open>last_word[-1]\<close> is read only under
  \<open>if last_word\<close> and \<open>new_word[0]\<close> only after the empty word has returned, so neither
  index is ever out of range. After an added word the source also clears the text widget's
  key \<open>word_input\<close> and asks for a rerun of the script; neither touches a key of the game.
\<close>

definition app_submitWord :: "session \<Rightarrow> pystr \<Rightarrow> session \<times> outcome" where
  "app_submitWord s user_input =
     (if user_input = [] then (s\<lparr>message := msg_empty\<rparr>, Rejected EmptyInput)
      else
        let new_word = strip user_input in
        if new_word = [] then (s\<lparr>message := msg_empty\<rparr>, Rejected EmptyInput)
        else if new_word \<in> set (word_history s) then
          (s\<lparr>game_over := True, message := app_msg_duplicate new_word\<rparr>,
           GameOver DuplicateWord new_word)
        else if last_word s \<noteq> [] \<and> hd new_word \<noteq> last (last_word s) then
          (s\<lparr>game_over := True,
             message := app_msg_chain new_word (last (last_word s))\<rparr>,
           GameOver ChainBroken new_word)
        else
          (s\<lparr>word_history := word_history s @ [new_word], last_word := new_word,
             current_turn := current_turn s + 1, message := app_msg_added new_word\<rparr>,
           Accepted new_word))"


section \<open>The two-player page, \<^verbatim>\<open>main.py\<close>\<close>

text \<open>
  \<open>initialize_game\<close>: the argument is the session before the call, \<open>None\<close> when it holds no
  key yet. Only \<open>input_key_counter\<close> reads it (\<open>session_state.get('input_key_counter', 0) + 1\<close>).
\<close>

definition main_initialize_game :: "session2 option \<Rightarrow> session2" where
  "main_initialize_game prev =
     \<lparr>word_history = [], current_turn = 1, last_word = [], game_over = False,
      message = main_msg_start, current_player = A,
      input_key_counter = (case prev of None \<Rightarrow> 0 | Some s \<Rightarrow> input_key_counter s) + 1\<rparr>"

text \<open>
  The submit handler of \<open>main\<close>: the same checks, the player named in the messages, and
  after an added word the change of player, with the turn counted when \<open>A\<close> is next, and
  a new key for the text widget.
\<close>

definition main_submitWord :: "session2 \<Rightarrow> pystr \<Rightarrow> session2 \<times> outcome" where
  "main_submitWord s user_input =
     (if user_input = [] then (s\<lparr>message := msg_empty\<rparr>, Rejected EmptyInput)
      else
        let new_word = strip user_input in
        if new_word = [] then (s\<lparr>message := msg_empty\<rparr>, Rejected EmptyInput)
        else if new_word \<in> set (word_history s) then
          (s\<lparr>game_over := True,
             message := main_msg_duplicate (current_player s) new_word\<rparr>,
           GameOver DuplicateWord new_word)
        else if last_word s \<noteq> [] \<and> hd new_word \<noteq> last (last_word s) then
          (s\<lparr>game_over := True,
             message := main_msg_chain (current_player s) new_word (last (last_word s))\<rparr>,
           GameOver ChainBroken new_word)
        else
          let s1 = s\<lparr>word_history := word_history s @ [new_word], last_word := new_word,
                     message := main_msg_added (current_player s) new_word\<rparr>;
              s2 = (if current_player s1 = A then s1\<lparr>current_player := B\<rparr>
                    else s1\<lparr>current_player := A, current_turn := current_turn s1 + 1\<rparr>)
          in (s2\<lparr>input_key_counter := input_key_counter s2 + 1\<rparr>, Accepted new_word))"


section \<open>Sequences of submissions\<close>

text \<open>The state after the handler has run on each input of a list, in order.\<close>

definition app_submit_all :: "session \<Rightarrow> pystr list \<Rightarrow> session" where
  "app_submit_all s inputs = foldl (\<lambda>t raw. fst (app_submitWord t raw)) s inputs"

definition main_submit_all :: "session2 \<Rightarrow> pystr list \<Rightarrow> session2" where
  "main_submit_all s inputs = foldl (\<lambda>t raw. fst (main_submitWord t raw)) s inputs"


section \<open>One run of the page script\<close>

text \<open>
  What the user did to start a run of \<open>main\<close>: a click on one of the buttons (the submit
  button comes with the content of the text field) or nothing that matters to the game.
  The new-game button is drawn only when the game is over, the other two only when it
  is not.
\<close>

datatype event = Idle | ClickNewGame | ClickSubmit pystr | ClickRestart

text \<open>
  \<open>main\<close> of \<^verbatim>\<open>app.py\<close>: an empty session is initialised first; a finished game only
  offers the new game; otherwise the submit handler or the restart button runs.
\<close>

definition app_main :: "session option \<Rightarrow> event \<Rightarrow> session" where
  "app_main sess ev =
     (let s = (case sess of None \<Rightarrow> app_initialize_game | Some t \<Rightarrow> t) in
      if game_over s then (if ev = ClickNewGame then app_initialize_game else s)
      else
        (case ev of
           ClickSubmit user_input \<Rightarrow> fst (app_submitWord s user_input)
         | ClickRestart \<Rightarrow> app_initialize_game
         | _ \<Rightarrow> s))"

definition main_main :: "session2 option \<Rightarrow> event \<Rightarrow> session2" where
  "main_main sess ev =
     (let s = (case sess of None \<Rightarrow> main_initialize_game None | Some t \<Rightarrow> t) in
      if game_over s then (if ev = ClickNewGame then main_initialize_game (Some s) else s)
      else
        (case ev of
           ClickSubmit user_input \<Rightarrow> fst (main_submitWord s user_input)
         | ClickRestart \<Rightarrow> main_initialize_game (Some s)
         | _ \<Rightarrow> s))"

definition app_run :: "session option \<Rightarrow> event list \<Rightarrow> session option" where
  "app_run sess evs = foldl (\<lambda>t ev. Some (app_main t ev)) sess evs"

definition main_run :: "session2 option \<Rightarrow> event list \<Rightarrow> session2 option" where
  "main_run sess evs = foldl (\<lambda>t ev. Some (main_main t ev)) sess evs"


section \<open>Turn bookkeeping of the two-player page\<close>

text \<open>
  Player and turn counter as functions of the number of words played: \<open>A\<close> moves on an even
  count, and the counter is one more than the number of completed rounds.
\<close>

definition turn_inv :: "session2 \<Rightarrow> bool" where
  "turn_inv s \<longleftrightarrow>
     (current_player s = A \<longleftrightarrow> even (length (word_history s))) \<and>
     current_turn s = int (length (word_history s) div 2) + 1"



section \<open>Evaluation and auxiliary facts\<close>

lemmas run_defs =
  app_submit_all_def main_submit_all_def app_submitWord_def main_submitWord_def
  app_initialize_game_def main_initialize_game_def py_def strip_def isspace_def Let_def

lemma strip_Nil: "strip [] = []"
  by (simp add: strip_def)

lemma dropWhile_all_Nil: "(\<forall>c\<in>set (dropWhile P xs). P c) \<longleftrightarrow> dropWhile P xs = []"
proof
  assume h: "\<forall>c\<in>set (dropWhile P xs). P c"
  show "dropWhile P xs = []"
  proof (rule ccontr)
    assume n: "dropWhile P xs \<noteq> []"
    then have "\<not> P (hd (dropWhile P xs))" by (rule hd_dropWhile)
    moreover have "hd (dropWhile P xs) \<in> set (dropWhile P xs)" using n by simp
    ultimately show False using h by blast
  qed
qed (auto dest: set_dropWhileD)

lemma strip_empty_iff: "strip s = [] \<longleftrightarrow> (\<forall>c\<in>set s. isspace c)"
proof -
  have "strip s = [] \<longleftrightarrow> (\<forall>c\<in>set (dropWhile isspace s). isspace c)"
    by (simp add: strip_def)
  also have "\<dots> \<longleftrightarrow> dropWhile isspace s = []" by (rule dropWhile_all_Nil)
  also have "\<dots> \<longleftrightarrow> (\<forall>c\<in>set s. isspace c)" by simp
  finally show ?thesis .
qed

lemma strip_nonempty_input: "strip raw \<noteq> [] \<Longrightarrow> raw \<noteq> []"
  using strip_Nil by auto

text \<open>
  Claim C1. On both pages: when the trimmed input is non-empty, is not in the history, and
  either no word has been played or its first code point equals the last code point of the
  last word, the handler ends with \<open>Accepted\<close> of the trimmed word and the history is the
  old history with the trimmed word appended.
\<close>

theorem submitWord_accepts:
  "(strip raw \<noteq> [] \<and> strip raw \<notin> set (word_history s) \<and>
    (last_word s = [] \<or> hd (strip raw) = last (last_word s)) \<longrightarrow>
      snd (app_submitWord s raw) = Accepted (strip raw) \<and>
      word_history (fst (app_submitWord s raw)) = word_history s @ [strip raw]) \<and>
   (strip raw \<noteq> [] \<and> strip raw \<notin> set (word_history t) \<and>
    (last_word t = [] \<or> hd (strip raw) = last (last_word t)) \<longrightarrow>
      snd (main_submitWord t raw) = Accepted (strip raw) \<and>
      word_history (fst (main_submitWord t raw)) = word_history t @ [strip raw])"
proof (intro conjI impI)
  assume h: "strip raw \<noteq> [] \<and> strip raw \<notin> set (word_history s) \<and>
    (last_word s = [] \<or> hd (strip raw) = last (last_word s))"
  then have r: "raw \<noteq> []" by (simp add: strip_nonempty_input)
  show "snd (app_submitWord s raw) = Accepted (strip raw)"
    using h r by (auto simp add: app_submitWord_def Let_def)
  show "word_history (fst (app_submitWord s raw)) = word_history s @ [strip raw]"
    using h r by (auto simp add: app_submitWord_def Let_def)
next
  assume h: "strip raw \<noteq> [] \<and> strip raw \<notin> set (word_history t) \<and>
    (last_word t = [] \<or> hd (strip raw) = last (last_word t))"
  then have r: "raw \<noteq> []" by (simp add: strip_nonempty_input)
  show "snd (main_submitWord t raw) = Accepted (strip raw)"
    using h r by (auto simp add: main_submitWord_def Let_def)
  show "word_history (fst (main_submitWord t raw)) = word_history t @ [strip raw]"
    using h r by (auto simp add: main_submitWord_def Let_def)
qed

theorem submitWord_accepts_witness:
  "(strip (py '' elephant '') \<noteq> [] \<and>
    strip (py '' elephant '') \<notin> set (word_history (app_submit_all app_initialize_game [py ''apple''])) \<and>
    hd (strip (py '' elephant '')) = last (last_word (app_submit_all app_initialize_game [py ''apple''])) \<and>
    snd (app_submitWord (app_submit_all app_initialize_game [py ''apple'']) (py '' elephant ''))
      = Accepted (py ''elephant'') \<and>
    word_history (fst (app_submitWord (app_submit_all app_initialize_game [py ''apple''])
      (py '' elephant ''))) = [py ''apple'', py ''elephant'']) \<and>
   (strip (py '' elephant '') \<notin> set (word_history (main_submit_all (main_initialize_game None) [py ''apple''])) \<and>
    hd (strip (py '' elephant '')) = last (last_word (main_submit_all (main_initialize_game None) [py ''apple''])) \<and>
    snd (main_submitWord (main_submit_all (main_initialize_game None) [py ''apple'']) (py '' elephant ''))
      = Accepted (py ''elephant'') \<and>
    word_history (fst (main_submitWord (main_submit_all (main_initialize_game None) [py ''apple''])
      (py '' elephant ''))) = [py ''apple'', py ''elephant''])"
proof -
  have w: "strip (py '' elephant '') = py ''elephant''"
    by (simp add: py_def strip_def isspace_def)
  have a: "word_history (app_submit_all app_initialize_game [py ''apple'']) = [py ''apple'']"
    "last_word (app_submit_all app_initialize_game [py ''apple'']) = py ''apple''"
    by (simp_all add: run_defs)
  have m: "word_history (main_submit_all (main_initialize_game None) [py ''apple'']) = [py ''apple'']"
    "last_word (main_submit_all (main_initialize_game None) [py ''apple'']) = py ''apple''"
    by (simp_all add: run_defs)
  have h: "py ''elephant'' \<noteq> [] \<and> py ''elephant'' \<notin> set [py ''apple''] \<and>
      hd (py ''elephant'') = last (py ''apple'')"
    by (simp add: py_def)
  show ?thesis
    using submitWord_accepts [of "py '' elephant ''" "app_submit_all app_initialize_game [py ''apple'']"
        "main_submit_all (main_initialize_game None) [py ''apple'']"] h
    by (simp add: w a m)
qed


lemma apple_elephant_app:
  "word_history (app_submit_all app_initialize_game [py ''apple'', py ''elephant''])
     = [py ''apple'', py ''elephant'']"
  "last_word (app_submit_all app_initialize_game [py ''apple'', py ''elephant'']) = py ''elephant''"
  "game_over (app_submit_all app_initialize_game [py ''apple'', py ''elephant'']) = False"
  by (simp_all add: run_defs)

lemma apple_elephant_main:
  "word_history (main_submit_all (main_initialize_game None) [py ''apple'', py ''elephant''])
     = [py ''apple'', py ''elephant'']"
  "last_word (main_submit_all (main_initialize_game None) [py ''apple'', py ''elephant''])
     = py ''elephant''"
  "game_over (main_submit_all (main_initialize_game None) [py ''apple'', py ''elephant'']) = False"
  by (simp_all add: run_defs)

lemma app_submit_all_Nil: "app_submit_all s [] = s"
  by (simp add: app_submit_all_def)

lemma app_submit_all_Cons:
  "app_submit_all s (raw # inputs) = app_submit_all (fst (app_submitWord s raw)) inputs"
  by (simp add: app_submit_all_def)

lemma main_submit_all_Nil: "main_submit_all s [] = s"
  by (simp add: main_submit_all_def)

lemma main_submit_all_Cons:
  "main_submit_all s (raw # inputs) = main_submit_all (fst (main_submitWord s raw)) inputs"
  by (simp add: main_submit_all_def)

lemma app_submitWord_words_nonempty:
  "[] \<notin> set (word_history s) \<Longrightarrow> [] \<notin> set (word_history (fst (app_submitWord s raw)))"
  by (simp add: app_submitWord_def Let_def)

lemma main_submitWord_words_nonempty:
  "[] \<notin> set (word_history s) \<Longrightarrow> [] \<notin> set (word_history (fst (main_submitWord s raw)))"
  by (simp add: main_submitWord_def Let_def)

lemma app_submit_all_words_nonempty:
  "[] \<notin> set (word_history s) \<Longrightarrow> [] \<notin> set (word_history (app_submit_all s inputs))"
proof (induction inputs arbitrary: s)
  case Nil
  then show ?case by (simp add: app_submit_all_Nil)
next
  case (Cons raw inputs)
  from Cons.prems have "[] \<notin> set (word_history (fst (app_submitWord s raw)))"
    by (rule app_submitWord_words_nonempty)
  then show ?case by (simp add: app_submit_all_Cons Cons.IH)
qed

lemma main_submit_all_words_nonempty:
  "[] \<notin> set (word_history s) \<Longrightarrow> [] \<notin> set (word_history (main_submit_all s inputs))"
proof (induction inputs arbitrary: s)
  case Nil
  then show ?case by (simp add: main_submit_all_Nil)
next
  case (Cons raw inputs)
  from Cons.prems have "[] \<notin> set (word_history (fst (main_submitWord s raw)))"
    by (rule main_submitWord_words_nonempty)
  then show ?case by (simp add: main_submit_all_Cons Cons.IH)
qed

lemma played_words_nonempty:
  "[] \<notin> set (word_history (app_submit_all app_initialize_game inputs))"
  "[] \<notin> set (word_history (main_submit_all (main_initialize_game prev) inputs))"
  by (simp_all add: app_submit_all_words_nonempty main_submit_all_words_nonempty
      app_initialize_game_def main_initialize_game_def)

lemma app_submitWord_duplicate:
  assumes "strip raw \<noteq> []" and "strip raw \<in> set (word_history s)"
  shows "app_submitWord s raw =
    (s\<lparr>game_over := True, message := app_msg_duplicate (strip raw)\<rparr>,
     GameOver DuplicateWord (strip raw))"
proof -
  have "raw \<noteq> []" using assms(1) by (rule strip_nonempty_input)
  then show ?thesis using assms by (simp add: app_submitWord_def Let_def)
qed

lemma main_submitWord_duplicate:
  assumes "strip raw \<noteq> []" and "strip raw \<in> set (word_history s)"
  shows "main_submitWord s raw =
    (s\<lparr>game_over := True, message := main_msg_duplicate (current_player s) (strip raw)\<rparr>,
     GameOver DuplicateWord (strip raw))"
proof -
  have "raw \<noteq> []" using assms(1) by (rule strip_nonempty_input)
  then show ?thesis using assms by (simp add: main_submitWord_def Let_def)
qed

lemma member_nonempty: "w \<in> set ws \<Longrightarrow> [] \<notin> set ws \<Longrightarrow> w \<noteq> []"
  by auto

text \<open>
  Claim C2. On both pages: when the submitted word (the trimmed input) already occurs in
  the history, the handler ends with \<open>GameOver DuplicateWord\<close> of that word, \<open>game_over\<close>
  is set and the history is left as it was. No assumption is made on the chaining rule: the
  membership test comes first. This holds in every state reached from a fresh game by any
  sequence of submissions, where the history never holds the empty word; and in any
  state at all for a non-empty word (the empty word returns at the first check).
\<close>

theorem submitWord_duplicate:
  "(strip raw \<noteq> [] \<and> strip raw \<in> set (word_history s) \<longrightarrow>
      snd (app_submitWord s raw) = GameOver DuplicateWord (strip raw) \<and>
      game_over (fst (app_submitWord s raw)) \<and>
      word_history (fst (app_submitWord s raw)) = word_history s) \<and>
   (strip raw \<noteq> [] \<and> strip raw \<in> set (word_history t) \<longrightarrow>
      snd (main_submitWord t raw) = GameOver DuplicateWord (strip raw) \<and>
      game_over (fst (main_submitWord t raw)) \<and>
      word_history (fst (main_submitWord t raw)) = word_history t) \<and>
   (strip raw \<in> set (word_history (app_submit_all app_initialize_game inputs)) \<longrightarrow>
      snd (app_submitWord (app_submit_all app_initialize_game inputs) raw)
        = GameOver DuplicateWord (strip raw) \<and>
      game_over (fst (app_submitWord (app_submit_all app_initialize_game inputs) raw)) \<and>
      word_history (fst (app_submitWord (app_submit_all app_initialize_game inputs) raw))
        = word_history (app_submit_all app_initialize_game inputs)) \<and>
   (strip raw \<in> set (word_history (main_submit_all (main_initialize_game prev) inputs)) \<longrightarrow>
      snd (main_submitWord (main_submit_all (main_initialize_game prev) inputs) raw)
        = GameOver DuplicateWord (strip raw) \<and>
      game_over (fst (main_submitWord (main_submit_all (main_initialize_game prev) inputs) raw)) \<and>
      word_history (fst (main_submitWord (main_submit_all (main_initialize_game prev) inputs) raw))
        = word_history (main_submit_all (main_initialize_game prev) inputs))"
proof -
  have a: "strip raw \<noteq> [] \<and> strip raw \<in> set (word_history u) \<longrightarrow>
      snd (app_submitWord u raw) = GameOver DuplicateWord (strip raw) \<and>
      game_over (fst (app_submitWord u raw)) \<and>
      word_history (fst (app_submitWord u raw)) = word_history u" for u
    by (simp add: app_submitWord_duplicate)
  have m: "strip raw \<noteq> [] \<and> strip raw \<in> set (word_history u) \<longrightarrow>
      snd (main_submitWord u raw) = GameOver DuplicateWord (strip raw) \<and>
      game_over (fst (main_submitWord u raw)) \<and>
      word_history (fst (main_submitWord u raw)) = word_history u" for u
    by (simp add: main_submitWord_duplicate)
  have na: "strip raw \<in> set (word_history (app_submit_all app_initialize_game inputs)) \<longrightarrow>
      strip raw \<noteq> []"
    using played_words_nonempty(1) [of inputs] by (auto dest: member_nonempty)
  have nm: "strip raw \<in> set (word_history (main_submit_all (main_initialize_game prev) inputs))
      \<longrightarrow> strip raw \<noteq> []"
    using played_words_nonempty(2) [of prev inputs] by (auto dest: member_nonempty)
  show ?thesis
    using a [of s] m [of t] a [of "app_submit_all app_initialize_game inputs"]
      m [of "main_submit_all (main_initialize_game prev) inputs"] na nm
    by blast
qed

theorem submitWord_duplicate_witness:
  "(strip (py ''apple '') \<noteq> [] \<and>
    strip (py ''apple '') \<in>
      set (word_history (app_submit_all app_initialize_game [py ''apple'', py ''elephant''])) \<and>
    hd (strip (py ''apple '')) \<noteq>
      last (last_word (app_submit_all app_initialize_game [py ''apple'', py ''elephant''])) \<and>
    snd (app_submitWord (app_submit_all app_initialize_game [py ''apple'', py ''elephant''])
      (py ''apple '')) = GameOver DuplicateWord (py ''apple'') \<and>
    game_over (fst (app_submitWord
      (app_submit_all app_initialize_game [py ''apple'', py ''elephant'']) (py ''apple ''))) \<and>
    word_history (fst (app_submitWord
      (app_submit_all app_initialize_game [py ''apple'', py ''elephant'']) (py ''apple '')))
      = [py ''apple'', py ''elephant'']) \<and>
   (strip (py ''apple '') \<in>
      set (word_history (main_submit_all (main_initialize_game None)
        [py ''apple'', py ''elephant''])) \<and>
    snd (main_submitWord (main_submit_all (main_initialize_game None)
      [py ''apple'', py ''elephant'']) (py ''apple '')) = GameOver DuplicateWord (py ''apple'') \<and>
    game_over (fst (main_submitWord (main_submit_all (main_initialize_game None)
      [py ''apple'', py ''elephant'']) (py ''apple ''))) \<and>
    word_history (fst (main_submitWord (main_submit_all (main_initialize_game None)
      [py ''apple'', py ''elephant'']) (py ''apple ''))) = [py ''apple'', py ''elephant''])"
proof -
  have w: "strip (py ''apple '') = py ''apple''"
    by (simp add: py_def strip_def isspace_def)
  have h: "py ''apple'' \<noteq> [] \<and> py ''apple'' \<in> set [py ''apple'', py ''elephant''] \<and>
      hd (py ''apple'') \<noteq> last (py ''elephant'')"
    by (simp add: py_def)
  show ?thesis
    using submitWord_duplicate [of "py ''apple ''"
        "app_submit_all app_initialize_game [py ''apple'', py ''elephant'']"
        "main_submit_all (main_initialize_game None) [py ''apple'', py ''elephant'']"
        "[py ''apple'', py ''elephant'']" None] h
    by (simp add: w apple_elephant_app apple_elephant_main)
qed

text \<open>
  Claim C3. On both pages: when the trimmed input is non-empty and not in the history, a
  word has been played, and the first code point of the input differs from the last code
  point of the last word, the handler ends with \<open>GameOver ChainBroken\<close> of the trimmed
  word and \<open>game_over\<close> is set.
\<close>

theorem submitWord_chain_broken:
  "(strip raw \<noteq> [] \<and> strip raw \<notin> set (word_history s) \<and> last_word s \<noteq> [] \<and>
    hd (strip raw) \<noteq> last (last_word s) \<longrightarrow>
      snd (app_submitWord s raw) = GameOver ChainBroken (strip raw) \<and>
      game_over (fst (app_submitWord s raw))) \<and>
   (strip raw \<noteq> [] \<and> strip raw \<notin> set (word_history t) \<and> last_word t \<noteq> [] \<and>
    hd (strip raw) \<noteq> last (last_word t) \<longrightarrow>
      snd (main_submitWord t raw) = GameOver ChainBroken (strip raw) \<and>
      game_over (fst (main_submitWord t raw)))"
proof (intro conjI impI)
  assume h: "strip raw \<noteq> [] \<and> strip raw \<notin> set (word_history s) \<and> last_word s \<noteq> [] \<and>
    hd (strip raw) \<noteq> last (last_word s)"
  then have r: "raw \<noteq> []" by (simp add: strip_nonempty_input)
  show "snd (app_submitWord s raw) = GameOver ChainBroken (strip raw)"
    using h r by (simp add: app_submitWord_def Let_def)
  show "game_over (fst (app_submitWord s raw))"
    using h r by (simp add: app_submitWord_def Let_def)
next
  assume h: "strip raw \<noteq> [] \<and> strip raw \<notin> set (word_history t) \<and> last_word t \<noteq> [] \<and>
    hd (strip raw) \<noteq> last (last_word t)"
  then have r: "raw \<noteq> []" by (simp add: strip_nonempty_input)
  show "snd (main_submitWord t raw) = GameOver ChainBroken (strip raw)"
    using h r by (simp add: main_submitWord_def Let_def)
  show "game_over (fst (main_submitWord t raw))"
    using h r by (simp add: main_submitWord_def Let_def)
qed

lemma apple_app:
  "word_history (app_submit_all app_initialize_game [py ''apple'']) = [py ''apple'']"
  "last_word (app_submit_all app_initialize_game [py ''apple'']) = py ''apple''"
  by (simp_all add: run_defs)

lemma apple_main:
  "word_history (main_submit_all (main_initialize_game None) [py ''apple'']) = [py ''apple'']"
  "last_word (main_submit_all (main_initialize_game None) [py ''apple'']) = py ''apple''"
  by (simp_all add: run_defs)

theorem submitWord_chain_broken_witness:
  "(strip (py ''banana'') \<noteq> [] \<and>
    strip (py ''banana'') \<notin> set (word_history (app_submit_all app_initialize_game [py ''apple''])) \<and>
    last_word (app_submit_all app_initialize_game [py ''apple'']) \<noteq> [] \<and>
    hd (strip (py ''banana'')) \<noteq> last (last_word (app_submit_all app_initialize_game [py ''apple''])) \<and>
    snd (app_submitWord (app_submit_all app_initialize_game [py ''apple'']) (py ''banana''))
      = GameOver ChainBroken (py ''banana'') \<and>
    game_over (fst (app_submitWord (app_submit_all app_initialize_game [py ''apple''])
      (py ''banana'')))) \<and>
   (strip (py ''banana'') \<notin>
      set (word_history (main_submit_all (main_initialize_game None) [py ''apple''])) \<and>
    last_word (main_submit_all (main_initialize_game None) [py ''apple'']) \<noteq> [] \<and>
    hd (strip (py ''banana'')) \<noteq>
      last (last_word (main_submit_all (main_initialize_game None) [py ''apple''])) \<and>
    snd (main_submitWord (main_submit_all (main_initialize_game None) [py ''apple''])
      (py ''banana'')) = GameOver ChainBroken (py ''banana'') \<and>
    game_over (fst (main_submitWord (main_submit_all (main_initialize_game None) [py ''apple''])
      (py ''banana''))))"
proof -
  have w: "strip (py ''banana'') = py ''banana''"
    by (simp add: py_def strip_def isspace_def)
  have h: "py ''banana'' \<noteq> [] \<and> py ''banana'' \<notin> set [py ''apple''] \<and> py ''apple'' \<noteq> [] \<and>
      hd (py ''banana'') \<noteq> last (py ''apple'')"
    by (simp add: py_def)
  show ?thesis
    using submitWord_chain_broken [of "py ''banana''"
        "app_submit_all app_initialize_game [py ''apple'']"
        "main_submit_all (main_initialize_game None) [py ''apple'']"] h
    by (simp add: w apple_app apple_main)
qed


lemma main_submitWord_turn:
  "current_player (fst (main_submitWord s raw)) =
     (if is_accepted (snd (main_submitWord s raw))
      then (if current_player s = A then B else A) else current_player s)"
  "current_turn (fst (main_submitWord s raw)) =
     (if is_accepted (snd (main_submitWord s raw)) \<and> current_player s \<noteq> A
      then current_turn s + 1 else current_turn s)"
  by (simp_all add: main_submitWord_def Let_def)

text \<open>
  Claim C4. On the two-player page, from a fresh game: after one accepted submission the
  player is \<open>B\<close> and the turn is still 1; after a second accepted submission in a row the
  player is \<open>A\<close> and the turn is 2. From any state an accepted submission changes the
  player and adds one to the turn exactly when the move goes back to \<open>A\<close>; any other
  outcome leaves player and turn as they were.
\<close>

theorem two_player_turn_order:
  "(is_accepted (snd (main_submitWord (main_initialize_game prev) raw1)) \<longrightarrow>
      current_player (main_submit_all (main_initialize_game prev) [raw1]) = B \<and>
      current_turn (main_submit_all (main_initialize_game prev) [raw1]) = 1) \<and>
   (is_accepted (snd (main_submitWord (main_initialize_game prev) raw1)) \<and>
    is_accepted (snd (main_submitWord (main_submit_all (main_initialize_game prev) [raw1]) raw2))
    \<longrightarrow>
      current_player (main_submit_all (main_initialize_game prev) [raw1, raw2]) = A \<and>
      current_turn (main_submit_all (main_initialize_game prev) [raw1, raw2]) = 2) \<and>
   (is_accepted (snd (main_submitWord s raw)) \<longrightarrow>
      current_player (fst (main_submitWord s raw)) \<noteq> current_player s \<and>
      current_turn (fst (main_submitWord s raw)) =
        (if current_player (fst (main_submitWord s raw)) = A then current_turn s + 1
         else current_turn s)) \<and>
   (\<not> is_accepted (snd (main_submitWord s raw)) \<longrightarrow>
      current_player (fst (main_submitWord s raw)) = current_player s \<and>
      current_turn (fst (main_submitWord s raw)) = current_turn s)"
proof -
  let ?i = "main_initialize_game prev"
  have i: "current_player ?i = A" "current_turn ?i = 1"
    by (simp_all add: main_initialize_game_def)
  have one: "main_submit_all ?i [raw1] = fst (main_submitWord ?i raw1)"
    by (simp add: main_submit_all_def)
  have two: "main_submit_all ?i [raw1, raw2] =
      fst (main_submitWord (main_submit_all ?i [raw1]) raw2)"
    by (simp add: main_submit_all_def)
  have c1: "is_accepted (snd (main_submitWord ?i raw1)) \<longrightarrow>
      current_player (main_submit_all ?i [raw1]) = B \<and>
      current_turn (main_submit_all ?i [raw1]) = 1"
    by (simp add: one main_submitWord_turn i)
  have c2: "is_accepted (snd (main_submitWord ?i raw1)) \<and>
      is_accepted (snd (main_submitWord (main_submit_all ?i [raw1]) raw2)) \<longrightarrow>
      current_player (main_submit_all ?i [raw1, raw2]) = A \<and>
      current_turn (main_submit_all ?i [raw1, raw2]) = 2"
    using c1 by (simp add: two main_submitWord_turn)
  have c3: "is_accepted (snd (main_submitWord s raw)) \<longrightarrow>
      current_player (fst (main_submitWord s raw)) \<noteq> current_player s \<and>
      current_turn (fst (main_submitWord s raw)) =
        (if current_player (fst (main_submitWord s raw)) = A then current_turn s + 1
         else current_turn s)"
    by (cases "current_player s") (simp_all add: main_submitWord_turn)
  have c4: "\<not> is_accepted (snd (main_submitWord s raw)) \<longrightarrow>
      current_player (fst (main_submitWord s raw)) = current_player s \<and>
      current_turn (fst (main_submitWord s raw)) = current_turn s"
    by (simp add: main_submitWord_turn)
  show ?thesis using c1 c2 c3 c4 by blast
qed

lemma apple_main_full:
  "snd (main_submitWord (main_initialize_game None) (py ''apple'')) = Accepted (py ''apple'')"
  "current_player (main_submit_all (main_initialize_game None) [py ''apple'']) = B"
  "current_turn (main_submit_all (main_initialize_game None) [py ''apple'']) = 1"
  by (simp_all add: run_defs)

lemma rejected_main:
  "snd (main_submitWord (main_initialize_game None) (py ''  '')) = Rejected EmptyInput"
  by (simp add: run_defs)

theorem two_player_turn_order_witness:
  "is_accepted (snd (main_submitWord (main_initialize_game None) (py ''apple''))) \<and>
   is_accepted (snd (main_submitWord
     (main_submit_all (main_initialize_game None) [py ''apple'']) (py ''elephant''))) \<and>
   \<not> is_accepted (snd (main_submitWord (main_initialize_game None) (py ''  ''))) \<and>
   current_player (main_submit_all (main_initialize_game None) [py ''apple'']) = B \<and>
   current_turn (main_submit_all (main_initialize_game None) [py ''apple'']) = 1 \<and>
   current_player (main_submit_all (main_initialize_game None) [py ''apple'', py ''elephant''])
     = A \<and>
   current_turn (main_submit_all (main_initialize_game None) [py ''apple'', py ''elephant''])
     = 2 \<and>
   current_player (fst (main_submitWord (main_initialize_game None) (py ''  ''))) = A \<and>
   current_turn (fst (main_submitWord (main_initialize_game None) (py ''  ''))) = 1"
proof -
  have a1: "is_accepted (snd (main_submitWord (main_initialize_game None) (py ''apple'')))"
    by (simp add: apple_main_full)
  have a2: "is_accepted (snd (main_submitWord
      (main_submit_all (main_initialize_game None) [py ''apple'']) (py ''elephant'')))"
    by (simp add: run_defs)
  have r: "\<not> is_accepted (snd (main_submitWord (main_initialize_game None) (py ''  '')))"
    by (simp add: rejected_main)
  have i: "current_player (main_initialize_game None) = A"
    "current_turn (main_initialize_game None) = 1"
    by (simp_all add: main_initialize_game_def)
  show ?thesis
    using two_player_turn_order [of None "py ''apple''" "py ''elephant''"
        "main_initialize_game None" "py ''  ''"] a1 a2 r i
    by simp
qed

text \<open>
  Claim C5 as stated fails: an input of three spaces on a fresh game is rejected as empty,
  but the stored message is replaced by the prompt to enter a word, so the state is not
  the one before the call. This holds on both pages.
\<close>

theorem empty_input_changes_message:
  "strip (py ''   '') = [] \<and>
   snd (app_submitWord app_initialize_game (py ''   '')) = Rejected EmptyInput \<and>
   message (fst (app_submitWord app_initialize_game (py ''   ''))) \<noteq> message app_initialize_game \<and>
   fst (app_submitWord app_initialize_game (py ''   '')) \<noteq> app_initialize_game \<and>
   snd (main_submitWord (main_initialize_game None) (py ''   '')) = Rejected EmptyInput \<and>
   message (fst (main_submitWord (main_initialize_game None) (py ''   '')))
     \<noteq> message (main_initialize_game None)"
  by (simp add: run_defs msg_empty_def app_msg_start_def main_msg_start_def)

text \<open>
  Claim C5, amended. On both pages: when the trimmed input is empty the handler ends with
  \<open>Rejected EmptyInput\<close> and the state is the old state with only \<open>message\<close> replaced
  by the prompt to enter a word; in particular \<open>game_over\<close> keeps its value.
\<close>

theorem empty_input_rejected:
  "(strip raw = [] \<longrightarrow>
      app_submitWord s raw = (s\<lparr>message := msg_empty\<rparr>, Rejected EmptyInput)) \<and>
   (strip raw = [] \<longrightarrow>
      main_submitWord t raw = (t\<lparr>message := msg_empty\<rparr>, Rejected EmptyInput))"
  by (simp add: app_submitWord_def main_submitWord_def Let_def)

theorem empty_input_rejected_witness:
  "strip (py ''   '') = [] \<and>
   app_submitWord app_initialize_game (py ''   '') =
     (app_initialize_game\<lparr>message := msg_empty\<rparr>, Rejected EmptyInput) \<and>
   main_submitWord (main_initialize_game None) (py ''   '') =
     ((main_initialize_game None)\<lparr>message := msg_empty\<rparr>, Rejected EmptyInput)"
proof -
  have h: "strip (py ''   '') = []"
    by (simp add: py_def strip_def isspace_def)
  show ?thesis
    using empty_input_rejected [of "py ''   ''" app_initialize_game "main_initialize_game None"] h
    by simp
qed

text \<open>
  Claim C6. On both pages: when every code point of the input is whitespace (the empty
  input included) and the game is not over, the handler leaves \<open>word_history\<close>,
  \<open>last_word\<close>, \<open>current_turn\<close> and, on the two-player page, \<open>current_player\<close> as they
  were, and \<open>game_over\<close> stays false.
\<close>

theorem whitespace_input_frame:
  "((\<forall>c\<in>set raw. isspace c) \<and> \<not> game_over s \<longrightarrow>
      word_history (fst (app_submitWord s raw)) = word_history s \<and>
      last_word (fst (app_submitWord s raw)) = last_word s \<and>
      current_turn (fst (app_submitWord s raw)) = current_turn s \<and>
      \<not> game_over (fst (app_submitWord s raw))) \<and>
   ((\<forall>c\<in>set raw. isspace c) \<and> \<not> game_over t \<longrightarrow>
      word_history (fst (main_submitWord t raw)) = word_history t \<and>
      last_word (fst (main_submitWord t raw)) = last_word t \<and>
      current_turn (fst (main_submitWord t raw)) = current_turn t \<and>
      current_player (fst (main_submitWord t raw)) = current_player t \<and>
      \<not> game_over (fst (main_submitWord t raw)))"
proof (intro conjI impI)
  assume h: "(\<forall>c\<in>set raw. isspace c) \<and> \<not> game_over s"
  then have e: "strip raw = []" by (simp add: strip_empty_iff)
  have r: "app_submitWord s raw = (s\<lparr>message := msg_empty\<rparr>, Rejected EmptyInput)"
    using e by (simp add: app_submitWord_def Let_def)
  show "word_history (fst (app_submitWord s raw)) = word_history s" by (simp add: r)
  show "last_word (fst (app_submitWord s raw)) = last_word s" by (simp add: r)
  show "current_turn (fst (app_submitWord s raw)) = current_turn s" by (simp add: r)
  show "\<not> game_over (fst (app_submitWord s raw))" using h by (simp add: r)
next
  assume h: "(\<forall>c\<in>set raw. isspace c) \<and> \<not> game_over t"
  then have e: "strip raw = []" by (simp add: strip_empty_iff)
  have r: "main_submitWord t raw = (t\<lparr>message := msg_empty\<rparr>, Rejected EmptyInput)"
    using e by (simp add: main_submitWord_def Let_def)
  show "word_history (fst (main_submitWord t raw)) = word_history t" by (simp add: r)
  show "last_word (fst (main_submitWord t raw)) = last_word t" by (simp add: r)
  show "current_turn (fst (main_submitWord t raw)) = current_turn t" by (simp add: r)
  show "current_player (fst (main_submitWord t raw)) = current_player t" by (simp add: r)
  show "\<not> game_over (fst (main_submitWord t raw))" using h by (simp add: r)
qed

theorem whitespace_input_frame_witness:
  "list_all isspace (py '' '' @ [9, 12288]) \<and>
   \<not> game_over (app_submit_all app_initialize_game [py ''apple'', py ''elephant'']) \<and>
   \<not> game_over (main_submit_all (main_initialize_game None) [py ''apple'', py ''elephant'']) \<and>
   word_history (fst (app_submitWord
     (app_submit_all app_initialize_game [py ''apple'', py ''elephant''])
     (py '' '' @ [9, 12288]))) = [py ''apple'', py ''elephant''] \<and>
   last_word (fst (main_submitWord
     (main_submit_all (main_initialize_game None) [py ''apple'', py ''elephant''])
     (py '' '' @ [9, 12288]))) = py ''elephant''"
proof -
  have l: "list_all isspace (py '' '' @ [9, 12288])"
    by (simp add: py_def isspace_def)
  then have h: "\<forall>c\<in>set (py '' '' @ [9, 12288]). isspace c"
    by (simp only: list_all_iff)
  show ?thesis
    using whitespace_input_frame [of "py '' '' @ [9, 12288]"
        "app_submit_all app_initialize_game [py ''apple'', py ''elephant'']"
        "main_submit_all (main_initialize_game None) [py ''apple'', py ''elephant'']"] h l
    by (simp add: apple_elephant_app apple_elephant_main)
qed

text \<open>
  Claim C7. On the solo page the turn grows by one when the handler ends with \<open>Accepted\<close>
  and keeps its value on every other outcome; on a fresh game the input \<open>apple\<close> is
  accepted, the history becomes the single word \<open>apple\<close> and the turn becomes 2.
\<close>

theorem solo_turn_counter:
  "current_turn (fst (app_submitWord s raw)) =
     (if is_accepted (snd (app_submitWord s raw)) then current_turn s + 1 else current_turn s) \<and>
   snd (app_submitWord app_initialize_game (py ''apple'')) = Accepted (py ''apple'') \<and>
   word_history (fst (app_submitWord app_initialize_game (py ''apple''))) = [py ''apple''] \<and>
   current_turn (fst (app_submitWord app_initialize_game (py ''apple''))) = 2"
proof -
  have g: "current_turn (fst (app_submitWord s raw)) =
     (if is_accepted (snd (app_submitWord s raw)) then current_turn s + 1 else current_turn s)"
    by (simp add: app_submitWord_def Let_def)
  have a: "snd (app_submitWord app_initialize_game (py ''apple'')) = Accepted (py ''apple'')"
    "word_history (fst (app_submitWord app_initialize_game (py ''apple''))) = [py ''apple'']"
    "current_turn (fst (app_submitWord app_initialize_game (py ''apple''))) = 2"
    by (simp_all add: run_defs)
  show ?thesis using g a by simp
qed

text \<open>
  Claim C9. \<open>initialize_game\<close> yields the same game fields whatever the session held:
  empty history, turn 1, empty last word, game not over, the start message and, on the
  two-player page, player \<open>A\<close>. The solo page's function reads nothing of the session;
  the two-player page's function reads only the counter of the input widget's key.
\<close>

theorem initialize_game_fresh:
  "word_history app_initialize_game = [] \<and> current_turn app_initialize_game = 1 \<and>
   last_word app_initialize_game = [] \<and> \<not> game_over app_initialize_game \<and>
   message app_initialize_game = app_msg_start \<and>
   word_history (main_initialize_game prev) = [] \<and>
   current_turn (main_initialize_game prev) = 1 \<and>
   last_word (main_initialize_game prev) = [] \<and> \<not> game_over (main_initialize_game prev) \<and>
   message (main_initialize_game prev) = main_msg_start \<and>
   current_player (main_initialize_game prev) = A"
  by (simp add: app_initialize_game_def main_initialize_game_def)


lemma app_submitWord_distinct:
  "distinct (word_history s) \<Longrightarrow> distinct (word_history (fst (app_submitWord s raw)))"
  by (simp add: app_submitWord_def Let_def)

lemma main_submitWord_distinct:
  "distinct (word_history s) \<Longrightarrow> distinct (word_history (fst (main_submitWord s raw)))"
  by (simp add: main_submitWord_def Let_def)

lemma app_submit_all_distinct:
  "distinct (word_history s) \<Longrightarrow> distinct (word_history (app_submit_all s inputs))"
proof (induction inputs arbitrary: s)
  case Nil
  then show ?case by (simp add: app_submit_all_Nil)
next
  case (Cons raw inputs)
  from Cons.prems have "distinct (word_history (fst (app_submitWord s raw)))"
    by (rule app_submitWord_distinct)
  then show ?case by (simp add: app_submit_all_Cons Cons.IH)
qed

lemma main_submit_all_distinct:
  "distinct (word_history s) \<Longrightarrow> distinct (word_history (main_submit_all s inputs))"
proof (induction inputs arbitrary: s)
  case Nil
  then show ?case by (simp add: main_submit_all_Nil)
next
  case (Cons raw inputs)
  from Cons.prems have "distinct (word_history (fst (main_submitWord s raw)))"
    by (rule main_submitWord_distinct)
  then show ?case by (simp add: main_submit_all_Cons Cons.IH)
qed

text \<open>
  Claim C8. On both pages the words of the history are pairwise distinct in every state
  reached from a fresh game by any sequence of submissions, and the handler keeps the
  history distinct from any state where it is. A fresh game has the empty history.
\<close>

theorem history_distinct:
  "distinct (word_history (app_submit_all app_initialize_game inputs)) \<and>
   distinct (word_history (main_submit_all (main_initialize_game prev) inputs)) \<and>
   (distinct (word_history s) \<longrightarrow> distinct (word_history (fst (app_submitWord s raw)))) \<and>
   (distinct (word_history t) \<longrightarrow> distinct (word_history (fst (main_submitWord t raw))))"
proof -
  have "distinct (word_history app_initialize_game)"
    by (simp add: app_initialize_game_def)
  then have a: "distinct (word_history (app_submit_all app_initialize_game inputs))"
    by (rule app_submit_all_distinct)
  have "distinct (word_history (main_initialize_game prev))"
    by (simp add: main_initialize_game_def)
  then have m: "distinct (word_history (main_submit_all (main_initialize_game prev) inputs))"
    by (rule main_submit_all_distinct)
  show ?thesis using a m app_submitWord_distinct main_submitWord_distinct by blast
qed

theorem history_distinct_witness:
  "distinct (word_history (app_submit_all app_initialize_game [py ''apple'', py ''elephant''])) \<and>
   distinct (word_history (main_submit_all (main_initialize_game None)
     [py ''apple'', py ''elephant''])) \<and>
   distinct (word_history (fst (app_submitWord
     (app_submit_all app_initialize_game [py ''apple'', py ''elephant'']) (py ''tea'')))) \<and>
   distinct (word_history (fst (main_submitWord
     (main_submit_all (main_initialize_game None) [py ''apple'', py ''elephant''])
     (py ''tea''))))"
proof -
  have d: "distinct [py ''apple'', py ''elephant'']"
    by (simp add: py_def)
  show ?thesis
    using history_distinct [of "[py ''apple'', py ''elephant'']" None
        "app_submit_all app_initialize_game [py ''apple'', py ''elephant'']" "py ''tea''"
        "main_submit_all (main_initialize_game None) [py ''apple'', py ''elephant'']"] d
    by (simp add: apple_elephant_app apple_elephant_main)
qed

lemma main_submitWord_parity:
  assumes "current_player s = A \<longleftrightarrow> even (length (word_history s))"
    and "current_turn s = int (length (word_history s) div 2) + 1"
  shows "(current_player (fst (main_submitWord s raw)) = A \<longleftrightarrow>
           even (length (word_history (fst (main_submitWord s raw))))) \<and>
         current_turn (fst (main_submitWord s raw)) =
           int (length (word_history (fst (main_submitWord s raw))) div 2) + 1"
proof (cases "is_accepted (snd (main_submitWord s raw))")
  case False
  then have "word_history (fst (main_submitWord s raw)) = word_history s"
    by (auto simp add: main_submitWord_def Let_def split: if_splits)
  then show ?thesis using False assms by (simp add: main_submitWord_turn)
next
  case True
  then have len: "length (word_history (fst (main_submitWord s raw))) =
      Suc (length (word_history s))"
    by (auto simp add: main_submitWord_def Let_def split: if_splits)
  show ?thesis
  proof (cases "current_player s")
    case A
    then have "even (length (word_history s))" using assms(1) by simp
    then show ?thesis using True A assms(2) by (simp add: main_submitWord_turn len)
  next
    case B
    then have "odd (length (word_history s))" using assms(1) by simp
    then show ?thesis using True B assms(2) by (simp add: main_submitWord_turn len)
  qed
qed

lemma main_submit_all_parity:
  assumes "current_player s = A \<longleftrightarrow> even (length (word_history s))"
    and "current_turn s = int (length (word_history s) div 2) + 1"
  shows "(current_player (main_submit_all s inputs) = A \<longleftrightarrow>
           even (length (word_history (main_submit_all s inputs)))) \<and>
         current_turn (main_submit_all s inputs) =
           int (length (word_history (main_submit_all s inputs)) div 2) + 1"
  using assms
proof (induction inputs arbitrary: s)
  case Nil
  then show ?case by (simp add: main_submit_all_Nil)
next
  case (Cons raw inputs)
  have "(current_player (fst (main_submitWord s raw)) = A \<longleftrightarrow>
           even (length (word_history (fst (main_submitWord s raw))))) \<and>
         current_turn (fst (main_submitWord s raw)) =
           int (length (word_history (fst (main_submitWord s raw))) div 2) + 1"
    using Cons.prems by (rule main_submitWord_parity)
  then show ?case by (simp add: main_submit_all_Cons Cons.IH)
qed

text \<open>
  Claim C10. On the two-player page, in every state reached from a fresh game by any
  sequence of submissions (so in every such state where the game is not over), the player
  is \<open>A\<close> exactly when the number of words in the history is even, and the turn is that
  number divided by two, rounded down, plus one.
\<close>

theorem two_player_parity:
  "(current_player (main_submit_all (main_initialize_game prev) inputs) = A \<longleftrightarrow>
      even (length (word_history (main_submit_all (main_initialize_game prev) inputs)))) \<and>
   current_turn (main_submit_all (main_initialize_game prev) inputs) =
     int (length (word_history (main_submit_all (main_initialize_game prev) inputs)) div 2) + 1"
  by (rule main_submit_all_parity) (simp_all add: main_initialize_game_def)


lemma app_main_over:
  "game_over s \<Longrightarrow> app_main (Some s) ev = (if ev = ClickNewGame then app_initialize_game else s)"
  by (simp add: app_main_def)

lemma main_main_over:
  "game_over s \<Longrightarrow>
   main_main (Some s) ev = (if ev = ClickNewGame then main_initialize_game (Some s) else s)"
  by (simp add: main_main_def)

lemma app_main_distinct:
  "(case sess of None \<Rightarrow> True | Some s \<Rightarrow> distinct (word_history s)) \<Longrightarrow>
   distinct (word_history (app_main sess ev))"
  by (cases sess; cases ev)
    (simp_all add: app_main_def Let_def app_submitWord_distinct app_initialize_game_def)

lemma main_main_distinct:
  "(case sess of None \<Rightarrow> True | Some s \<Rightarrow> distinct (word_history s)) \<Longrightarrow>
   distinct (word_history (main_main sess ev))"
  by (cases sess; cases ev)
    (simp_all add: main_main_def Let_def main_submitWord_distinct main_initialize_game_def)

lemma app_run_distinct:
  "(case sess of None \<Rightarrow> True | Some s \<Rightarrow> distinct (word_history s)) \<Longrightarrow>
   (case app_run sess evs of None \<Rightarrow> True | Some s \<Rightarrow> distinct (word_history s))"
proof (induction evs arbitrary: sess)
  case Nil
  then show ?case by (simp add: app_run_def)
next
  case (Cons ev evs)
  have "app_run sess (ev # evs) = app_run (Some (app_main sess ev)) evs"
    by (simp add: app_run_def)
  moreover have "distinct (word_history (app_main sess ev))"
    using Cons.prems by (rule app_main_distinct)
  ultimately show ?case using Cons.IH [of "Some (app_main sess ev)"] by simp
qed

lemma main_run_distinct:
  "(case sess of None \<Rightarrow> True | Some s \<Rightarrow> distinct (word_history s)) \<Longrightarrow>
   (case main_run sess evs of None \<Rightarrow> True | Some s \<Rightarrow> distinct (word_history s))"
proof (induction evs arbitrary: sess)
  case Nil
  then show ?case by (simp add: main_run_def)
next
  case (Cons ev evs)
  have "main_run sess (ev # evs) = main_run (Some (main_main sess ev)) evs"
    by (simp add: main_run_def)
  moreover have "distinct (word_history (main_main sess ev))"
    using Cons.prems by (rule main_main_distinct)
  ultimately show ?case using Cons.IH [of "Some (main_main sess ev)"] by simp
qed


lemma main_main_turn_inv:
  "(case sess of None \<Rightarrow> True | Some s \<Rightarrow> turn_inv s) \<Longrightarrow> turn_inv (main_main sess ev)"
proof -
  assume h: "case sess of None \<Rightarrow> True | Some s \<Rightarrow> turn_inv s"
  have i: "turn_inv (main_initialize_game p)" for p
    by (simp add: turn_inv_def main_initialize_game_def)
  have st: "turn_inv s \<Longrightarrow> turn_inv (fst (main_submitWord s raw))" for s raw
    unfolding turn_inv_def by (rule main_submitWord_parity) simp_all
  show ?thesis
    using h i st by (cases sess; cases ev) (simp_all add: main_main_def Let_def)
qed

lemma main_run_turn_inv:
  "(case sess of None \<Rightarrow> True | Some s \<Rightarrow> turn_inv s) \<Longrightarrow>
   (case main_run sess evs of None \<Rightarrow> True | Some s \<Rightarrow> turn_inv s)"
proof (induction evs arbitrary: sess)
  case Nil
  then show ?case by (simp add: main_run_def)
next
  case (Cons ev evs)
  have "main_run sess (ev # evs) = main_run (Some (main_main sess ev)) evs"
    by (simp add: main_run_def)
  moreover have "turn_inv (main_main sess ev)"
    using Cons.prems by (rule main_main_turn_inv)
  ultimately show ?case using Cons.IH [of "Some (main_main sess ev)"] by simp
qed

end
